theory Spec2Isabelle
  imports Main "HOL-Library.Sublist"
begin

section \<open>The IAP token provider of \<^verbatim>\<open>iap_auth.py\<close>\<close>

text \<open>
  The class \<^verbatim>\<open>IAPTokenProvider\<close> keeps one OAuth credential, a cache file on disk, a
  lock and a background thread. Its methods are embedded as functions that take the
  state of the provider and return an outcome together with the new state. What the
  methods get from outside (the clock, the OAuth library, the token endpoint, the file
  system, the scheduling of the background thread) is a parameter, the environment:
  every theorem below holds for each behaviour of the outside world.

  The embedding follows one thread of control. The lock of the provider is a
  \<^verbatim>\<open>threading.Lock\<close>, which is not reentrant: an acquire on a held lock waits for a
  release by somebody else, and in one thread of control there is nobody else.

  Exceptions are in the embedding wherever the source raises or catches them. Of the
  log only the entry of a failed save is kept. The fixed text of two long error
  messages is shortened; no property depends on it.
\<close>

subsection \<open>Data\<close>

text \<open>
  \<^verbatim>\<open>google.oauth2.credentials.Credentials\<close>, with the attributes that
  \<^verbatim>\<open>_save_credentials\<close> writes. Times are seconds (UTC).
\<close>

record Credentials =
  token :: "string option"
  refresh_token :: "string option"
  token_uri :: "string option"
  client_id :: "string option"
  client_secret :: "string option"
  scopes :: "string list option"
  expiry :: "int option"

text \<open>Python exceptions: the ones the source raises itself, and all others, with \<^verbatim>\<open>str(e)\<close>.\<close>

datatype exn = RuntimeError string | OtherError string

fun str :: "exn \<Rightarrow> string" where
  "str (RuntimeError m) = m"
| "str (OtherError m) = m"

text \<open>
  How a call ends: it returns, it raises, or it waits forever for the lock
  (\<open>Blocked\<close>).
\<close>

datatype 'a outcome = Returned 'a | Raised exn | Blocked

text \<open>The form data of a token request: the dict literal, in the order of the source.\<close>

type_synonym payload = "(string \<times> string option) list"

text \<open>
  An HTTP response: the status code and what \<^verbatim>\<open>response.json()\<close> gives, a JSON
  object or anything else (then \<^verbatim>\<open>json()\<close> or the lookups on its result raise).
\<close>

datatype json_body = NoObject | Object "string \<rightharpoonup> string"

datatype post_result = ConnectionFailed string | Response nat json_body

text \<open>
  The trace of what the provider did to the outside world: it entered the consent flow,
  it called the library's \<^verbatim>\<open>refresh\<close> (the renewal call), it posted form data to the
  token endpoint, it logged that a save failed, it waited some seconds in \<^verbatim>\<open>join\<close>,
  a wait of the background loop ran its full interval.
\<close>

datatype event =
    ConsentFlow
  | Renewal
  | Post payload
  | LogSaveFailed
  | Joined nat
  | WaitTimedOut

text \<open>Where a save can fail: each step inside the \<^verbatim>\<open>try\<close> of \<^verbatim>\<open>_save_credentials\<close>.\<close>

datatype save_fault = NoFault | MkdirFails | OpenFails | DumpFails | ChmodFails

text \<open>The cache file holds a record written by a save, or something that does not parse.\<close>

datatype cache_content = CacheRecord Credentials | Corrupt

datatype thread = NotStarted | Alive | Finished

text \<open>
  The environment. Each answer may depend on the trace so far, so the same call can be
  answered differently each time, and the clock can advance with each outside call.
  \<^item> \<open>clock\<close>: \<^verbatim>\<open>datetime.utcnow()\<close>;
  \<^item> \<open>refresh_threshold\<close>: the library's margin in \<^verbatim>\<open>Credentials.expired\<close>;
  \<^item> \<open>run_local_server\<close>: the consent flow, a credential or an exception message;
  \<^item> \<open>refresh\<close>: \<^verbatim>\<open>Credentials.refresh(Request())\<close>, the renewed credential or an
    exception message;
  \<^item> \<open>from_authorized_user_info\<close>: the library's reading of a cache record;
  \<^item> \<open>post\<close>: \<^verbatim>\<open>requests.post(token_endpoint, data=payload)\<close>;
  \<^item> \<open>fault\<close>: which step of the next save fails;
  \<^item> \<open>thread_exit\<close>: in how many seconds the background thread ends, if it ends;
  \<^item> \<open>signalled\<close>: whether \<^verbatim>\<open>stop\<close> sets the event during the next wait of the
    background loop.
\<close>

record env =
  clock :: "event list \<Rightarrow> int"
  refresh_threshold :: int
  run_local_server :: "event list \<Rightarrow> string + Credentials"
  refresh :: "event list \<Rightarrow> Credentials \<Rightarrow> string + Credentials"
  from_authorized_user_info :: "Credentials \<Rightarrow> string + Credentials"
  post :: "event list \<Rightarrow> payload \<Rightarrow> post_result"
  fault :: "event list \<Rightarrow> save_fault"
  thread_exit :: "event list \<Rightarrow> nat option"
  signalled :: "event list \<Rightarrow> bool"

text \<open>
  The provider: the attributes set by \<^verbatim>\<open>__init__\<close>, the content of the cache file
  (\<open>None\<close>: no file) and the trace.
\<close>

record provider =
  iap_client_id :: string
  desktop_client_id :: string
  desktop_client_secret :: string
  refresh_interval :: nat
  credentials :: "Credentials option"
  token_expiry :: "int option"
  lock :: bool
  refresh_thread :: "thread option"
  stop_refresh :: bool
  token_cache_file :: "cache_content option"
  events :: "event list"

subsection \<open>Python and library primitives\<close>

text \<open>Truth value of an optional string: \<^verbatim>\<open>None\<close> and the empty string are false.\<close>

definition truthy :: "string option \<Rightarrow> bool" where
  "truthy x = (case x of None \<Rightarrow> False | Some v \<Rightarrow> v \<noteq> [])"

text \<open>\<^verbatim>\<open>str.lower()\<close> on ASCII letters.\<close>

definition lower_char :: "char \<Rightarrow> char" where
  "lower_char c =
     (let n = (of_char c :: nat) in if 65 \<le> n \<and> n \<le> 90 then char_of (n + 32) else c)"

definition lower :: "string \<Rightarrow> string" where
  "lower m = map lower_char m"

text \<open>
  The library's properties \<^verbatim>\<open>expired\<close> (no expiry: never expired; otherwise the clock
  has reached the expiry less the threshold) and \<^verbatim>\<open>valid\<close>.
\<close>

definition expired :: "env \<Rightarrow> provider \<Rightarrow> Credentials \<Rightarrow> bool" where
  "expired w s c =
     (case expiry c of
        None \<Rightarrow> False
      | Some e \<Rightarrow> e - refresh_threshold w \<le> clock w (events s))"

definition valid :: "env \<Rightarrow> provider \<Rightarrow> Credentials \<Rightarrow> bool" where
  "valid w s c = (token c \<noteq> None \<and> \<not> expired w s c)"

definition emit :: "event \<Rightarrow> provider \<Rightarrow> provider" where
  "emit e s = s\<lparr>events := events s @ [e]\<rparr>"

text \<open>Sequencing: the next statement runs only when the one before returned.\<close>

definition then_do ::
  "'a outcome \<times> provider \<Rightarrow> ('a \<Rightarrow> provider \<Rightarrow> 'b outcome \<times> provider) \<Rightarrow> 'b outcome \<times> provider" where
  "then_do r f =
     (case r of
        (Returned x, s) \<Rightarrow> f x s
      | (Raised e, s) \<Rightarrow> (Raised e, s)
      | (Blocked, s) \<Rightarrow> (Blocked, s))"

text \<open>
  \<^verbatim>\<open>with self._lock:\<close> on the non-reentrant lock. On a held lock the acquire never
  returns. Otherwise the body runs with the lock held, and the lock is released when
  the body returns or raises; a body that is blocked keeps it.
\<close>

definition with_lock ::
  "(provider \<Rightarrow> 'a outcome \<times> provider) \<Rightarrow> provider \<Rightarrow> 'a outcome \<times> provider" where
  "with_lock body s =
     (if lock s then (Blocked, s)
      else (case body (s\<lparr>lock := True\<rparr>) of
              (Blocked, s') \<Rightarrow> (Blocked, s')
            | (r, s') \<Rightarrow> (r, s'\<lparr>lock := False\<rparr>)))"

subsection \<open>The methods\<close>

text \<open>\<^verbatim>\<open>_update_expiry_from_credentials\<close> (lines 212-218).\<close>

definition update_expiry_from_credentials :: "env \<Rightarrow> provider \<Rightarrow> provider" where
  "update_expiry_from_credentials w s =
     (case credentials s of
        None \<Rightarrow> s\<lparr>token_expiry := Some (clock w (events s) + 3600)\<rparr>
      | Some c \<Rightarrow>
          (case expiry c of
             Some e \<Rightarrow> s\<lparr>token_expiry := Some e\<rparr>
           | None \<Rightarrow> s\<lparr>token_expiry := Some (clock w (events s) + 3600)\<rparr>))"

text \<open>
  \<^verbatim>\<open>_save_credentials\<close> (lines 133-161). First the body of its \<^verbatim>\<open>try\<close>: create the
  directory, read the attributes of the credential, open the file for writing (which
  empties it), dump the record, restrict the permissions. Then the method: the
  \<^verbatim>\<open>except Exception\<close> logs the error and nothing else.
\<close>

definition save_credentials_try :: "env \<Rightarrow> provider \<Rightarrow> unit outcome \<times> provider" where
  "save_credentials_try w s =
     (let f = fault w (events s) in
      if f = MkdirFails then (Raised (OtherError ''mkdir failed''), s)
      else (case credentials s of
              None \<Rightarrow> (Raised (OtherError ''NoneType object has no attribute token''), s)
            | Some c \<Rightarrow>
                if f = OpenFails then (Raised (OtherError ''open failed''), s)
                else if f = DumpFails then
                  (Raised (OtherError ''write failed''), s\<lparr>token_cache_file := Some Corrupt\<rparr>)
                else if f = ChmodFails then
                  (Raised (OtherError ''chmod failed''),
                   s\<lparr>token_cache_file := Some (CacheRecord c)\<rparr>)
                else (Returned (), s\<lparr>token_cache_file := Some (CacheRecord c)\<rparr>)))"

definition save_credentials :: "env \<Rightarrow> provider \<Rightarrow> provider" where
  "save_credentials w s =
     (case save_credentials_try w s of
        (Raised e, s') \<Rightarrow> emit LogSaveFailed s'
      | (_, s') \<Rightarrow> s')"

text \<open>
  \<^verbatim>\<open>_perform_oauth_flow\<close> (lines 163-210): everything is inside one \<^verbatim>\<open>try\<close>, and an
  exception becomes a \<^verbatim>\<open>RuntimeError\<close> that carries its message.
\<close>

definition perform_oauth_flow :: "env \<Rightarrow> provider \<Rightarrow> unit outcome \<times> provider" where
  "perform_oauth_flow w s =
     (let s1 = emit ConsentFlow s in
      case run_local_server w (events s) of
        Inl m \<Rightarrow> (Raised (RuntimeError (''Failed to authenticate with Google. Error: '' @ m)), s1)
      | Inr c \<Rightarrow>
          (Returned (),
           update_expiry_from_credentials w (save_credentials w (s1\<lparr>credentials := Some c\<rparr>))))"

text \<open>
  \<^verbatim>\<open>_load_cached_credentials\<close> (lines 97-131): every exception inside the \<^verbatim>\<open>try\<close>
  gives \<^verbatim>\<open>False\<close>.
\<close>

definition load_cached_credentials :: "env \<Rightarrow> provider \<Rightarrow> bool \<times> provider" where
  "load_cached_credentials w s =
     (case token_cache_file s of
        None \<Rightarrow> (False, s)
      | Some Corrupt \<Rightarrow> (False, s)
      | Some (CacheRecord d) \<Rightarrow>
          (case from_authorized_user_info w d of
             Inl m \<Rightarrow> (False, s)
           | Inr c \<Rightarrow>
               (let s1 = s\<lparr>credentials := Some c\<rparr> in
                if valid w s1 c then (True, update_expiry_from_credentials w s1)
                else if expired w s1 c \<and> truthy (refresh_token c) then
                  (let s2 = emit Renewal s1 in
                   case refresh w (events s1) c of
                     Inl m \<Rightarrow> (False, s2)
                   | Inr c' \<Rightarrow>
                       (True,
                        update_expiry_from_credentials w
                          (save_credentials w (s2\<lparr>credentials := Some c'\<rparr>))))
                else (False, s1))))"

text \<open>\<^verbatim>\<open>_initialize_credentials\<close> (lines 85-95).\<close>

definition initialize_credentials :: "env \<Rightarrow> provider \<Rightarrow> unit outcome \<times> provider" where
  "initialize_credentials w =
     with_lock (\<lambda>s.
       case load_cached_credentials w s of
         (True, s1) \<Rightarrow> (Returned (), s1)
       | (False, s1) \<Rightarrow> perform_oauth_flow w s1)"

text \<open>
  \<^verbatim>\<open>_start_refresh_thread\<close> (lines 273-279) and \<^verbatim>\<open>__init__\<close> (lines 33-83):
  \<open>new_provider\<close> is the object after the assignments of lines 45-77, given the
  client identifiers, the interval, what the cache file holds and the trace so far.
\<close>

definition start_refresh_thread :: "provider \<Rightarrow> provider" where
  "start_refresh_thread s = s\<lparr>refresh_thread := Some Alive\<rparr>"

definition new_provider ::
  "string \<Rightarrow> string \<Rightarrow> string \<Rightarrow> nat \<Rightarrow> cache_content option \<Rightarrow> event list \<Rightarrow> provider" where
  "new_provider iap desktop_id desktop_secret interval file trace =
     \<lparr>iap_client_id = iap, desktop_client_id = desktop_id,
      desktop_client_secret = desktop_secret, refresh_interval = interval,
      credentials = None, token_expiry = None, lock = False, refresh_thread = None,
      stop_refresh = False, token_cache_file = file, events = trace\<rparr>"

definition init :: "env \<Rightarrow> provider \<Rightarrow> unit outcome \<times> provider" where
  "init w s =
     then_do (initialize_credentials w s) (\<lambda>_ s1. (Returned (), start_refresh_thread s1))"

text \<open>
  \<^verbatim>\<open>_refresh_token\<close> (lines 220-259; the plain name is the credential's attribute).
  First the body of the \<^verbatim>\<open>try\<close>, then the \<^verbatim>\<open>except\<close> branch, then both as the
  body of the \<^verbatim>\<open>with\<close>, then the method. The test of the \<^verbatim>\<open>except\<close> branch is
  Python's \<^verbatim>\<open>"invalid_grant" in str(e).lower()\<close>. Here and in \<^verbatim>\<open>clear_cache\<close>
  the deletion of a file that exists is taken to succeed.
\<close>

definition refresh_token_try :: "env \<Rightarrow> provider \<Rightarrow> unit outcome \<times> provider" where
  "refresh_token_try w s =
     (case credentials s of
        None \<Rightarrow> (Returned (), s)
      | Some c \<Rightarrow>
          if valid w s c then (Returned (), s)
          else if \<not> truthy (refresh_token c) then perform_oauth_flow w s
          else
            (let s1 = emit Renewal s in
             case refresh w (events s) c of
               Inl m \<Rightarrow> (Raised (OtherError m), s1)
             | Inr c' \<Rightarrow>
                 (Returned (),
                  update_expiry_from_credentials w
                    (save_credentials w (s1\<lparr>credentials := Some c'\<rparr>)))))"

definition refresh_token_except :: "exn \<Rightarrow> provider \<Rightarrow> provider" where
  "refresh_token_except e s =
     (if sublist ''invalid_grant'' (lower (str e))
      then s\<lparr>credentials := None, token_cache_file := None\<rparr>
      else s)"

definition refresh_token_body :: "env \<Rightarrow> provider \<Rightarrow> unit outcome \<times> provider" where
  "refresh_token_body w s =
     (case refresh_token_try w s of
        (Raised e, s') \<Rightarrow> (Returned (), refresh_token_except e s')
      | r \<Rightarrow> r)"

definition do_refresh_token :: "env \<Rightarrow> provider \<Rightarrow> unit outcome \<times> provider" where
  "do_refresh_token w = with_lock (refresh_token_body w)"

text \<open>
  \<^verbatim>\<open>_refresh_loop\<close> (lines 261-271), the body of the background thread. The loop
  ends when the event is set, which only \<^verbatim>\<open>stop\<close> does, so it may run forever: the
  first argument bounds the number of rounds, and \<open>None\<close> says that the bound was
  reached. A wait that the event interrupts answers true, and the event is then set.
  A round that is blocked on the lock never ends.
\<close>

fun refresh_loop :: "nat \<Rightarrow> env \<Rightarrow> provider \<Rightarrow> (unit outcome \<times> provider) option" where
  "refresh_loop 0 w s = None"
| "refresh_loop (Suc n) w s =
     (if stop_refresh s then Some (Returned (), s)
      else if signalled w (events s) then Some (Returned (), s\<lparr>stop_refresh := True\<rparr>)
      else (case do_refresh_token w (emit WaitTimedOut s) of
              (Blocked, s') \<Rightarrow> Some (Blocked, s')
            | (r, s') \<Rightarrow> refresh_loop n w s'))"

text \<open>
  The token request of \<^verbatim>\<open>get_token\<close> (lines 315-374). First the body of the
  \<^verbatim>\<open>try\<close>: the request with the audience, on any status but 200 the request without
  it and \<^verbatim>\<open>raise_for_status\<close>, then the \<^verbatim>\<open>id_token\<close> of the JSON answer.
\<close>

definition payload_no_aud :: "provider \<Rightarrow> Credentials \<Rightarrow> payload" where
  "payload_no_aud s c =
     [(''client_id'', Some (desktop_client_id s)),
      (''client_secret'', Some (desktop_client_secret s)),
      (''refresh_token'', refresh_token c),
      (''grant_type'', Some ''refresh_token'')]"

definition payload_aud :: "provider \<Rightarrow> Credentials \<Rightarrow> payload" where
  "payload_aud s c = payload_no_aud s c @ [(''audience'', Some (iap_client_id s))]"

definition read_id_token :: "json_body \<Rightarrow> provider \<Rightarrow> string outcome \<times> provider" where
  "read_id_token b s =
     (case b of
        NoObject \<Rightarrow> (Raised (OtherError ''response is not a JSON object''), s)
      | Object obj \<Rightarrow>
          (case obj ''id_token'' of
             Some t \<Rightarrow> (Returned t, s)
           | None \<Rightarrow> (Raised (RuntimeError ''Token endpoint did not return an ID token.''), s)))"

definition raise_for_status :: "nat \<Rightarrow> bool" where
  "raise_for_status code = (400 \<le> code \<and> code < 600)"

definition request_id_token_try ::
  "env \<Rightarrow> provider \<Rightarrow> Credentials \<Rightarrow> string outcome \<times> provider" where
  "request_id_token_try w s c =
     (let s1 = emit (Post (payload_aud s c)) s in
      case post w (events s) (payload_aud s c) of
        ConnectionFailed m \<Rightarrow> (Raised (OtherError m), s1)
      | Response code b \<Rightarrow>
          if code \<noteq> 200 then
            (let s2 = emit (Post (payload_no_aud s c)) s1 in
             case post w (events s1) (payload_no_aud s c) of
               ConnectionFailed m \<Rightarrow> (Raised (OtherError m), s2)
             | Response code2 b2 \<Rightarrow>
                 if raise_for_status code2
                 then (Raised (OtherError ''HTTPError''), s2)
                 else read_id_token b2 s2)
          else read_id_token b s1)"

definition request_id_token ::
  "env \<Rightarrow> provider \<Rightarrow> Credentials \<Rightarrow> string outcome \<times> provider" where
  "request_id_token w s c =
     (case request_id_token_try w s c of
        (Raised e, s') \<Rightarrow>
          (Raised (RuntimeError (''Failed to obtain IAP ID token for user credentials. Error: '' @ str e)), s')
      | r \<Rightarrow> r)"

text \<open>
  \<^verbatim>\<open>get_token\<close> (lines 281-374). \<open>obtain_credentials\<close> is the part before the
  request (lines 293-308): the consent flow when there is no credential, the refresh
  of an expired token, the refresh within five minutes of the expiry.
  \<open>get_token_body\<close> is the body of the \<^verbatim>\<open>with\<close>.
\<close>

definition near_expiry :: "env \<Rightarrow> provider \<Rightarrow> bool" where
  "near_expiry w s =
     (case token_expiry s of
        None \<Rightarrow> False
      | Some e \<Rightarrow> e - 300 \<le> clock w (events s))"

definition obtain_credentials :: "env \<Rightarrow> provider \<Rightarrow> unit outcome \<times> provider" where
  "obtain_credentials w s =
     then_do
       (case credentials s of
          None \<Rightarrow> perform_oauth_flow w s
        | Some c \<Rightarrow> (Returned (), s))
       (\<lambda>_ s1.
          then_do
            (case credentials s1 of
               None \<Rightarrow> (Raised (OtherError ''NoneType object has no attribute expired''), s1)
             | Some c \<Rightarrow> if expired w s1 c then do_refresh_token w s1 else (Returned (), s1))
            (\<lambda>_ s2. if near_expiry w s2 then do_refresh_token w s2 else (Returned (), s2)))"

definition get_token_body :: "env \<Rightarrow> provider \<Rightarrow> string outcome \<times> provider" where
  "get_token_body w s =
     then_do (obtain_credentials w s)
       (\<lambda>_ s3.
          case credentials s3 of
            None \<Rightarrow> (Raised (RuntimeError ''Failed to obtain valid credentials''), s3)
          | Some c \<Rightarrow>
              if \<not> truthy (token c)
              then (Raised (RuntimeError ''Failed to obtain valid credentials''), s3)
              else request_id_token w s3 c)"

definition get_token :: "env \<Rightarrow> provider \<Rightarrow> string outcome \<times> provider" where
  "get_token w = with_lock (get_token_body w)"

text \<open>\<^verbatim>\<open>clear_cache\<close> (lines 376-382).\<close>

definition clear_cache :: "provider \<Rightarrow> unit outcome \<times> provider" where
  "clear_cache =
     with_lock (\<lambda>s. (Returned (), s\<lparr>token_cache_file := None, credentials := None\<rparr>))"

text \<open>
  \<^verbatim>\<open>stop\<close> (lines 384-389): set the event, then \<^verbatim>\<open>join(timeout=5)\<close>. The join returns
  when the thread has ended or after five seconds, whichever comes first; on a thread
  that was never started it raises. The thread ends when its loop sees the event; a
  thread that is inside \<^verbatim>\<open>_refresh_token\<close> (in a network call, or waiting for the
  lock) may end later or never, which is for the environment to say.
\<close>

definition join_timeout :: nat where
  "join_timeout = 5"

definition stop :: "env \<Rightarrow> provider \<Rightarrow> unit outcome \<times> provider" where
  "stop w s =
     (let s1 = s\<lparr>stop_refresh := True\<rparr> in
      case refresh_thread s1 of
        None \<Rightarrow> (Returned (), s1)
      | Some NotStarted \<Rightarrow>
          (Raised (RuntimeError ''cannot join thread before it is started''), s1)
      | Some Finished \<Rightarrow> (Returned (), emit (Joined 0) s1)
      | Some Alive \<Rightarrow>
          (case thread_exit w (events s1) of
             None \<Rightarrow> (Returned (), emit (Joined join_timeout) s1)
           | Some d \<Rightarrow>
               if d \<le> join_timeout
               then (Returned (), emit (Joined d) (s1\<lparr>refresh_thread := Some Finished\<rparr>))
               else (Returned (), emit (Joined join_timeout) s1)))"

subsection \<open>Several callers\<close>

text \<open>
  Threads that call \<^verbatim>\<open>get_token\<close> at the same time, as a step relation. A caller is
  idle (it has not yet taken the lock), holds the lock, waits inside the body for a
  lock that is held, or is done with an outcome. Every access of \<^verbatim>\<open>get_token\<close> to
  the provider is inside its \<^verbatim>\<open>with self._lock\<close>, so the body of the holder runs as
  one step. A caller that waits inside the body goes on when the lock is free; what it
  does then is left open (any configuration may follow), so the relation allows at
  least the runs of the code.
\<close>

datatype call = Idle | Holding | Waiting | Done "string outcome"

type_synonym config = "provider \<times> (nat \<Rightarrow> call)"

inductive step :: "env \<Rightarrow> config \<Rightarrow> config \<Rightarrow> bool" for w :: env where
  acquire: "t i = Idle \<Longrightarrow> \<not> lock s \<Longrightarrow> step w (s, t) (s\<lparr>lock := True\<rparr>, t(i := Holding))"
| finish: "t i = Holding \<Longrightarrow> get_token_body w s = (r, s') \<Longrightarrow> r \<noteq> Blocked \<Longrightarrow>
     step w (s, t) (s'\<lparr>lock := False\<rparr>, t(i := Done r))"
| block: "t i = Holding \<Longrightarrow> get_token_body w s = (Blocked, s') \<Longrightarrow>
     step w (s, t) (s', t(i := Waiting))"
| resume: "t i = Waiting \<Longrightarrow> \<not> lock s \<Longrightarrow> step w (s, t) c"

code_pred step .

subsection \<open>Examples\<close>

text \<open>
  A credential that expires at second 1000, an outside world where every call succeeds
  and the clock shows 0, and a provider that holds the credential. The witnesses below
  vary them.
\<close>

definition example_credential :: Credentials where
  "example_credential =
     \<lparr>token = Some ''access-1'', refresh_token = Some ''refresh-1'',
      token_uri = Some ''https://oauth2.googleapis.com/token'',
      client_id = Some ''desktop-client'', client_secret = Some ''desktop-secret'',
      scopes = Some [''openid''], expiry = Some 1000\<rparr>"

definition example_env :: env where
  "example_env =
     \<lparr>clock = (\<lambda>_. 0), refresh_threshold = 10,
      run_local_server = (\<lambda>_. Inr example_credential),
      refresh = (\<lambda>_ c. Inr (c\<lparr>token := Some ''access-2'', expiry := Some 4600\<rparr>)),
      from_authorized_user_info = Inr,
      post = (\<lambda>_ _. Response 200 (Object [''id_token'' \<mapsto> ''id-1''])),
      fault = (\<lambda>_. NoFault),
      thread_exit = (\<lambda>_. Some 0),
      signalled = (\<lambda>_. False)\<rparr>"

definition example_provider :: provider where
  "example_provider =
     \<lparr>iap_client_id = ''iap-client'', desktop_client_id = ''desktop-client'',
      desktop_client_secret = ''desktop-secret'', refresh_interval = 3000,
      credentials = Some example_credential, token_expiry = Some 1000, lock = False,
      refresh_thread = Some Alive, stop_refresh = False,
      token_cache_file = Some (CacheRecord example_credential), events = []\<rparr>"

definition no_access_token :: Credentials where
  "no_access_token = example_credential\<lparr>token := None\<rparr>"

text \<open>
  Three other outside worlds. In the first the token endpoint answers the request with
  the audience by an internal server error and the request without it by a token. In
  the second the token has expired and the renewal fails for a passing reason; in the
  third the provider rejects the refresh token, and the user then declines consent.
\<close>

definition server_error_env :: env where
  "server_error_env =
     example_env\<lparr>post := (\<lambda>_ p.
        if map_of p ''audience'' = None
        then Response 200 (Object [''id_token'' \<mapsto> ''id-2''])
        else Response 500 (Object [''error'' \<mapsto> ''internal_failure'']))\<rparr>"

definition transient_env :: env where
  "transient_env =
     example_env\<lparr>clock := (\<lambda>_. 995), refresh := (\<lambda>_ _. Inl ''503 Service Unavailable'')\<rparr>"

definition invalid_grant_env :: env where
  "invalid_grant_env =
     example_env\<lparr>clock := (\<lambda>_. 995),
       refresh := (\<lambda>_ _. Inl ''invalid_grant: Token has been expired or revoked.''),
       run_local_server := (\<lambda>_. Inl ''access_denied'')\<rparr>"

text \<open>
  The provider as \<^verbatim>\<open>__init__\<close> has it before it loads the cache: nothing in memory,
  the record of the example credential on disk.
\<close>

definition unloaded_provider :: provider where
  "unloaded_provider =
     new_provider ''iap-client'' ''desktop-client'' ''desktop-secret'' 3000
       (Some (CacheRecord example_credential)) []"

subsection \<open>Reading the trace\<close>

text \<open>The form data of the token requests in a trace, in order.\<close>

fun posts :: "event list \<Rightarrow> payload list" where
  "posts [] = []"
| "posts (Post p # es) = p # posts es"
| "posts (e # es) = posts es"

text \<open>The seconds spent in \<^verbatim>\<open>join\<close> in a trace.\<close>

fun waited :: "event list \<Rightarrow> nat" where
  "waited [] = 0"
| "waited (Joined d # es) = d + waited es"
| "waited (e # es) = waited es"

section \<open>Properties\<close>

subsection \<open>The lock\<close>

lemma do_refresh_token_held: "lock s \<Longrightarrow> do_refresh_token w s = (Blocked, s)"
  by (simp add: do_refresh_token_def with_lock_def)

lemma expired_lock [simp]: "expired w (s\<lparr>lock := b\<rparr>) c = expired w s c"
  by (simp add: expired_def split: option.splits)

lemma near_expiry_lock [simp]: "near_expiry w (s\<lparr>lock := b\<rparr>) = near_expiry w s"
  by (simp add: near_expiry_def split: option.splits)

subsection \<open>A token within five minutes of its expiry\<close>

text \<open>
  C1. The claim: when the clock has reached the expiry less five minutes, \<^verbatim>\<open>get_token\<close>
  makes exactly one renewal call and then the exchange. The code does not: at that
  point \<^verbatim>\<open>get_token\<close> holds the lock and calls \<^verbatim>\<open>_refresh_token\<close>, which acquires
  the same lock. For every provider that holds a credential whose recorded expiry is
  at most five minutes away, the call is blocked with the lock held and the trace
  unchanged: no renewal call and no exchange were made.
\<close>

theorem get_token_near_expiry_blocks:
  assumes "\<not> lock s" and "credentials s = Some c"
    and "token_expiry s = Some e" and "e - 300 \<le> clock w (events s)"
  shows "get_token w s = (Blocked, s\<lparr>lock := True\<rparr>)"
proof -
  let ?s = "s\<lparr>lock := True\<rparr>"
  have near: "near_expiry w ?s"
    using assms by (simp add: near_expiry_def)
  have "obtain_credentials w ?s = (Blocked, ?s)"
    using assms near
    by (simp add: obtain_credentials_def then_do_def do_refresh_token_held)
  then show ?thesis
    using assms by (simp add: get_token_def get_token_body_def with_lock_def then_do_def)
qed

theorem get_token_near_expiry_blocks_witness:
  "get_token (example_env\<lparr>clock := (\<lambda>_. 900)\<rparr>) example_provider
     = (Blocked, example_provider\<lparr>lock := True\<rparr>)
   \<and> events (example_provider\<lparr>lock := True\<rparr>) = []"
  using get_token_near_expiry_blocks
    [of example_provider example_credential 1000 "example_env\<lparr>clock := (\<lambda>_. 900)\<rparr>"]
  by (simp add: example_provider_def)

subsection \<open>The token request\<close>

lemma payload_no_aud_lock [simp]: "payload_no_aud (s\<lparr>lock := b\<rparr>) c = payload_no_aud s c"
  by (simp add: payload_no_aud_def)

lemma payload_aud_lock [simp]: "payload_aud (s\<lparr>lock := b\<rparr>) c = payload_aud s c"
  by (simp add: payload_aud_def)

lemma read_id_token_state: "snd (read_id_token b s) = s"
  by (simp add: read_id_token_def split: json_body.splits option.splits)

lemma read_id_token_not_blocked: "fst (read_id_token b s) \<noteq> Blocked"
  by (simp add: read_id_token_def split: json_body.splits option.splits)

lemma request_id_token_try_state:
  "snd (request_id_token_try w s c) = emit (Post (payload_aud s c)) s
   \<or> snd (request_id_token_try w s c)
       = emit (Post (payload_no_aud s c)) (emit (Post (payload_aud s c)) s)"
  by (simp add: request_id_token_try_def Let_def read_id_token_state
      split: post_result.splits)

lemma request_id_token_try_not_blocked: "fst (request_id_token_try w s c) \<noteq> Blocked"
  by (simp add: request_id_token_try_def Let_def read_id_token_not_blocked
      split: post_result.splits)

lemma request_id_token_snd: "snd (request_id_token w s c) = snd (request_id_token_try w s c)"
  by (cases "request_id_token_try w s c"; cases "fst (request_id_token_try w s c)")
    (auto simp: request_id_token_def split: outcome.splits)

lemma request_id_token_not_blocked: "fst (request_id_token w s c) \<noteq> Blocked"
  using request_id_token_try_not_blocked [of w s c]
  by (cases "request_id_token_try w s c") (auto simp: request_id_token_def split: outcome.splits)

lemma request_id_token_state:
  "snd (request_id_token w s c) = emit (Post (payload_aud s c)) s
   \<or> snd (request_id_token w s c)
       = emit (Post (payload_no_aud s c)) (emit (Post (payload_aud s c)) s)"
  using request_id_token_try_state [of w s c] by (simp add: request_id_token_snd)

lemma with_lock_free:
  "\<not> lock s \<Longrightarrow> fst (body (s\<lparr>lock := True\<rparr>)) \<noteq> Blocked \<Longrightarrow>
   with_lock body s = (fst (body (s\<lparr>lock := True\<rparr>)), (snd (body (s\<lparr>lock := True\<rparr>)))\<lparr>lock := False\<rparr>)"
  by (cases "body (s\<lparr>lock := True\<rparr>)") (auto simp: with_lock_def split: outcome.splits)

lemma with_lock_events:
  "\<not> lock s \<Longrightarrow> events (snd (with_lock body s)) = events (snd (body (s\<lparr>lock := True\<rparr>)))"
  by (cases "body (s\<lparr>lock := True\<rparr>)") (auto simp: with_lock_def split: outcome.splits)

subsection \<open>The steps before the token request\<close>

lemma update_expiry_events [simp]:
  "events (update_expiry_from_credentials w s) = events s"
  by (simp add: update_expiry_from_credentials_def split: option.splits)

lemma update_expiry_lock [simp]:
  "lock (update_expiry_from_credentials w s) = lock s"
  by (simp add: update_expiry_from_credentials_def split: option.splits)

lemma update_expiry_credentials [simp]:
  "credentials (update_expiry_from_credentials w s) = credentials s"
  by (simp add: update_expiry_from_credentials_def split: option.splits)

lemma save_credentials_lock [simp]: "lock (save_credentials w s) = lock s"
  by (simp add: save_credentials_def save_credentials_try_def emit_def Let_def
      split: option.splits)

lemma save_credentials_credentials [simp]:
  "credentials (save_credentials w s) = credentials s"
  by (simp add: save_credentials_def save_credentials_try_def emit_def Let_def
      split: option.splits)

lemma save_credentials_events:
  "events (save_credentials w s) = events s
   \<or> events (save_credentials w s) = events s @ [LogSaveFailed]"
  by (simp add: save_credentials_def save_credentials_try_def emit_def Let_def
      split: option.splits)

lemma save_credentials_consents [simp]:
  "count_list (events (save_credentials w s)) ConsentFlow = count_list (events s) ConsentFlow"
  using save_credentials_events [of w s] by auto

lemma perform_oauth_flow_lock [simp]: "lock (snd (perform_oauth_flow w s)) = lock s"
  by (simp add: perform_oauth_flow_def emit_def Let_def split: sum.splits)

lemma perform_oauth_flow_consents [simp]:
  "count_list (events (snd (perform_oauth_flow w s))) ConsentFlow
     = count_list (events s) ConsentFlow + 1"
  by (simp add: perform_oauth_flow_def emit_def Let_def split: sum.splits)

lemma perform_oauth_flow_returned:
  "fst (perform_oauth_flow w s) = Returned x \<Longrightarrow>
   \<exists>c. credentials (snd (perform_oauth_flow w s)) = Some c"
  by (simp add: perform_oauth_flow_def emit_def Let_def split: sum.splits)

lemma perform_oauth_flow_not_blocked: "fst (perform_oauth_flow w s) \<noteq> Blocked"
  by (simp add: perform_oauth_flow_def emit_def Let_def split: sum.splits)

text \<open>With the lock held and a credential present, the steps before the request change nothing.\<close>

lemma obtain_credentials_held_some:
  "lock s \<Longrightarrow> credentials s = Some c \<Longrightarrow> snd (obtain_credentials w s) = s"
  by (simp add: obtain_credentials_def then_do_def do_refresh_token_held)

lemma obtain_credentials_held_none:
  assumes "lock s" and "credentials s = None"
  shows "count_list (events (snd (obtain_credentials w s))) ConsentFlow
           = count_list (events s) ConsentFlow + 1"
proof (cases "perform_oauth_flow w s")
  case (Pair r s1)
  have l1: "lock s1" and n1: "count_list (events s1) ConsentFlow = count_list (events s) ConsentFlow + 1"
    using Pair assms perform_oauth_flow_lock [of w s] perform_oauth_flow_consents [of w s]
    by simp_all
  show ?thesis
  proof (cases r)
    case (Returned x)
    then obtain c where c: "credentials s1 = Some c"
      using Pair perform_oauth_flow_returned [of w s x] by auto
    have "snd (obtain_credentials w s) = s1"
      using assms Pair Returned c l1
      by (simp add: obtain_credentials_def then_do_def do_refresh_token_held)
    then show ?thesis using n1 by simp
  next
    case (Raised e)
    then have "snd (obtain_credentials w s) = s1"
      using assms Pair by (simp add: obtain_credentials_def then_do_def)
    then show ?thesis using n1 by simp
  next
    case Blocked
    then show ?thesis
      using Pair perform_oauth_flow_not_blocked [of w s] by simp
  qed
qed

lemma request_id_token_consents [simp]:
  "count_list (events (snd (request_id_token w s c))) ConsentFlow
     = count_list (events s) ConsentFlow"
  using request_id_token_state [of w s c] by (auto simp: emit_def)

lemma get_token_body_consents:
  "count_list (events (snd (get_token_body w s))) ConsentFlow
     = count_list (events (snd (obtain_credentials w s))) ConsentFlow"
  by (cases "obtain_credentials w s"; cases "fst (obtain_credentials w s)")
    (auto simp: get_token_body_def then_do_def split: option.splits)

lemma posts_append [simp]: "posts (xs @ ys) = posts xs @ posts ys"
  by (induction xs rule: posts.induct) simp_all

lemma perform_oauth_flow_events:
  "events (snd (perform_oauth_flow w s)) = events s @ [ConsentFlow]
   \<or> events (snd (perform_oauth_flow w s)) = events s @ [ConsentFlow, LogSaveFailed]"
  using save_credentials_events [of w "(emit ConsentFlow s)\<lparr>credentials := Some c\<rparr>" for c]
  by (auto simp: perform_oauth_flow_def emit_def Let_def split: sum.splits)

lemma obtain_credentials_held_none_state:
  assumes "lock s" and "credentials s = None"
  shows "snd (obtain_credentials w s) = snd (perform_oauth_flow w s)"
proof (cases "perform_oauth_flow w s")
  case (Pair r s1)
  have l1: "lock s1"
    using Pair assms perform_oauth_flow_lock [of w s] by simp
  show ?thesis
  proof (cases r)
    case (Returned x)
    then obtain c where c: "credentials s1 = Some c"
      using Pair perform_oauth_flow_returned [of w s x] by auto
    show ?thesis
      using assms Pair Returned c l1
      by (simp add: obtain_credentials_def then_do_def do_refresh_token_held)
  next
    case (Raised e)
    then show ?thesis
      using assms Pair by (simp add: obtain_credentials_def then_do_def)
  next
    case Blocked
    then show ?thesis
      using Pair perform_oauth_flow_not_blocked [of w s] by simp
  qed
qed

lemma obtain_credentials_held_posts:
  assumes "lock s"
  shows "posts (events (snd (obtain_credentials w s))) = posts (events s)"
proof (cases "credentials s")
  case None
  then show ?thesis
    using assms perform_oauth_flow_events [of w s]
    by (auto simp: obtain_credentials_held_none_state)
next
  case (Some c)
  then show ?thesis
    using assms by (simp add: obtain_credentials_held_some)
qed


lemma save_credentials_token_expiry [simp]:
  "token_expiry (save_credentials w s) = token_expiry s"
  by (simp add: save_credentials_def save_credentials_try_def emit_def Let_def
      split: option.splits)

subsection \<open>A token more than five minutes from its expiry\<close>

text \<open>
  C5. When the provider holds a credential that the library calls valid (an access
  token is set and not expired), the access token is not empty, and the clock is more
  than five minutes before the recorded expiry, \<^verbatim>\<open>get_token\<close> returns or raises (it is
  not blocked) and all it adds to the trace is the token exchange: the request with the
  audience, and after a refusal the request without it. It makes no renewal call and
  starts no consent flow.
\<close>

theorem get_token_fresh_only_exchange:
  assumes free: "\<not> lock s" and cred: "credentials s = Some c"
    and val: "valid w s c" and tok: "token c \<noteq> Some []"
    and exp: "token_expiry s = Some e" and far: "clock w (events s) < e - 300"
  shows "fst (get_token w s) \<noteq> Blocked
    \<and> (events (snd (get_token w s)) = events s @ [Post (payload_aud s c)]
       \<or> events (snd (get_token w s))
           = events s @ [Post (payload_aud s c), Post (payload_no_aud s c)])
    \<and> count_list (events (snd (get_token w s))) Renewal = count_list (events s) Renewal
    \<and> count_list (events (snd (get_token w s))) ConsentFlow
        = count_list (events s) ConsentFlow"
proof -
  let ?s = "s\<lparr>lock := True\<rparr>"
  have ne: "\<not> near_expiry w ?s"
    using exp far by (simp add: near_expiry_def)
  have nx: "\<not> expired w ?s c"
    using val by (simp add: valid_def)
  have oc: "obtain_credentials w ?s = (Returned (), ?s)"
    using cred ne nx by (simp add: obtain_credentials_def then_do_def)
  have tr: "truthy (token c)"
    using val tok by (auto simp: valid_def truthy_def split: option.splits)
  have body: "get_token_body w ?s = request_id_token w ?s c"
    using oc cred tr by (simp add: get_token_body_def then_do_def)
  have gt: "get_token w s
      = (fst (request_id_token w ?s c), (snd (request_id_token w ?s c))\<lparr>lock := False\<rparr>)"
    unfolding get_token_def
    using with_lock_free [OF free, of "get_token_body w"]
    by (simp add: body request_id_token_not_blocked)
  show ?thesis
    using request_id_token_state [of w ?s c] request_id_token_not_blocked [of w ?s c]
    by (auto simp: gt emit_def)
qed

theorem get_token_fresh_only_exchange_witness:
  "\<not> lock example_provider \<and> valid example_env example_provider example_credential
   \<and> clock example_env (events example_provider) < 1000 - 300
   \<and> fst (get_token example_env example_provider) \<noteq> Blocked
   \<and> events (snd (get_token example_env example_provider))
       = [Post (payload_aud example_provider example_credential)]"
proof -
  have run: "events (snd (get_token example_env example_provider))
      \<noteq> [Post (payload_aud example_provider example_credential),
          Post (payload_no_aud example_provider example_credential)]"
    by (simp add: get_token_def get_token_body_def with_lock_def then_do_def
        obtain_credentials_def example_provider_def example_env_def example_credential_def
        expired_def near_expiry_def truthy_def request_id_token_def request_id_token_try_def
        read_id_token_def emit_def Let_def)
  show ?thesis
    using run get_token_fresh_only_exchange
      [of example_provider example_credential example_env 1000]
    by (simp add: example_provider_def example_env_def example_credential_def valid_def
        expired_def)
qed

subsection \<open>Clearing the cache\<close>

text \<open>
  C6. From every state of a provider whose lock is free, \<^verbatim>\<open>clear_cache\<close> returns,
  leaves no credential in memory and no cache file, and is idempotent; the
  \<^verbatim>\<open>get_token\<close> that follows enters the consent flow exactly once, whatever the
  outside world answers.
\<close>

theorem clear_cache_then_get_token_one_consent:
  assumes "\<not> lock s"
  shows "fst (clear_cache s) = Returned ()
    \<and> credentials (snd (clear_cache s)) = None
    \<and> token_cache_file (snd (clear_cache s)) = None
    \<and> clear_cache (snd (clear_cache s)) = clear_cache s
    \<and> count_list (events (snd (get_token w (snd (clear_cache s))))) ConsentFlow
        = count_list (events s) ConsentFlow + 1"
proof -
  let ?c = "s\<lparr>token_cache_file := None, credentials := None\<rparr>"
  have cc: "clear_cache s = (Returned (), ?c)"
    using assms by (simp add: clear_cache_def with_lock_def)
  have idem: "clear_cache ?c = (Returned (), ?c)"
    using assms by (simp add: clear_cache_def with_lock_def)
  have "count_list (events (snd (get_token w ?c))) ConsentFlow
      = count_list (events (snd (get_token_body w (?c\<lparr>lock := True\<rparr>)))) ConsentFlow"
    using assms by (simp add: get_token_def with_lock_events)
  also have "\<dots> = count_list (events (?c\<lparr>lock := True\<rparr>)) ConsentFlow + 1"
    by (simp add: get_token_body_consents obtain_credentials_held_none)
  finally show ?thesis
    by (simp add: cc idem)
qed

theorem clear_cache_then_get_token_one_consent_witness:
  "\<not> lock example_provider
   \<and> credentials (snd (clear_cache example_provider)) = None
   \<and> count_list (events (snd (get_token example_env (snd (clear_cache example_provider)))))
        ConsentFlow = 1"
  using clear_cache_then_get_token_one_consent [of example_provider example_env]
  by (simp add: example_provider_def)

subsection \<open>No request without an access token\<close>

text \<open>
  C10. When the steps before the request return and leave no credential, or a
  credential whose access token is unset or empty, \<^verbatim>\<open>get_token\<close> raises
  \<^verbatim>\<open>RuntimeError\<close> and has sent no request to the token endpoint.
\<close>

theorem get_token_guards_exchange:
  assumes free: "\<not> lock s"
    and oc: "obtain_credentials w (s\<lparr>lock := True\<rparr>) = (Returned (), s')"
    and bad: "credentials s' = None \<or> (\<exists>c. credentials s' = Some c \<and> \<not> truthy (token c))"
  shows "get_token w s
           = (Raised (RuntimeError ''Failed to obtain valid credentials''), s'\<lparr>lock := False\<rparr>)
    \<and> posts (events (snd (get_token w s))) = posts (events s)"
proof -
  let ?s = "s\<lparr>lock := True\<rparr>"
  have body: "get_token_body w ?s
      = (Raised (RuntimeError ''Failed to obtain valid credentials''), s')"
    using oc bad by (auto simp: get_token_body_def then_do_def)
  have gt: "get_token w s
      = (Raised (RuntimeError ''Failed to obtain valid credentials''), s'\<lparr>lock := False\<rparr>)"
    using free body by (simp add: get_token_def with_lock_def)
  have "posts (events s') = posts (events ?s)"
    using obtain_credentials_held_posts [of ?s w] oc by simp
  then show ?thesis
    by (simp add: gt)
qed

theorem get_token_guards_exchange_witness:
  "get_token (example_env\<lparr>run_local_server := (\<lambda>_. Inr no_access_token)\<rparr>)
      (example_provider\<lparr>credentials := None\<rparr>)
     = (Raised (RuntimeError ''Failed to obtain valid credentials''),
        example_provider\<lparr>credentials := Some no_access_token,
          token_cache_file := Some (CacheRecord no_access_token), events := [ConsentFlow]\<rparr>)
   \<and> posts (events (snd (get_token
        (example_env\<lparr>run_local_server := (\<lambda>_. Inr no_access_token)\<rparr>)
        (example_provider\<lparr>credentials := None\<rparr>)))) = []"
proof -
  let ?w = "example_env\<lparr>run_local_server := (\<lambda>_. Inr no_access_token)\<rparr>"
  let ?s = "example_provider\<lparr>credentials := None\<rparr>"
  let ?s' = "example_provider\<lparr>credentials := Some no_access_token, lock := True,
          token_cache_file := Some (CacheRecord no_access_token), events := [ConsentFlow]\<rparr>"
  have free: "\<not> lock ?s"
    by (simp add: example_provider_def)
  have oc: "obtain_credentials ?w (?s\<lparr>lock := True\<rparr>) = (Returned (), ?s')"
    by (simp add: obtain_credentials_def then_do_def perform_oauth_flow_def
        save_credentials_def save_credentials_try_def update_expiry_from_credentials_def
        expired_def near_expiry_def emit_def Let_def
        example_provider_def example_env_def example_credential_def no_access_token_def)
  have bad: "credentials ?s' = None
      \<or> (\<exists>c. credentials ?s' = Some c \<and> \<not> truthy (token c))"
    by (simp add: truthy_def no_access_token_def)
  show ?thesis
    using get_token_guards_exchange [OF free oc bad]
    by (simp add: example_provider_def)
qed

subsection \<open>A save that fails\<close>



subsection \<open>The retry without the audience\<close>

text \<open>
  C2, as claimed: the request is repeated without the audience only when the provider
  refused it because it does not support the audience parameter. The code repeats it
  after every answer whose status is not 200. Here the provider answers the first
  request with status 500 and an internal failure, which says nothing about the
  audience, and \<^verbatim>\<open>get_token\<close> still sends the second request and returns its token.
\<close>

theorem retry_without_audience_counterexample:
  "post server_error_env [] (payload_aud example_provider example_credential)
     = Response 500 (Object [''error'' \<mapsto> ''internal_failure''])
   \<and> get_token server_error_env example_provider
     = (Returned ''id-2'',
        example_provider\<lparr>events :=
          [Post (payload_aud example_provider example_credential),
           Post (payload_no_aud example_provider example_credential)]\<rparr>)"
  by (simp add: get_token_def get_token_body_def with_lock_def then_do_def
        obtain_credentials_def example_provider_def example_env_def example_credential_def
        server_error_env_def payload_aud_def payload_no_aud_def
        expired_def near_expiry_def truthy_def request_id_token_def request_id_token_try_def
        read_id_token_def raise_for_status_def emit_def Let_def)

text \<open>
  C2, amended: the request without the audience is made exactly when the request with
  the audience is answered with a status other than 200, whatever the reason, and then
  it is made once (no answer at all: no retry); when the answer to the retry is not an
  HTTP error (status 400 to 599) and its JSON object holds an \<^verbatim>\<open>id_token\<close>, that
  token is returned.
\<close>

theorem retry_after_any_refusal:
  "events (snd (request_id_token w s c))
     = events s @
       (case post w (events s) (payload_aud s c) of
          ConnectionFailed m \<Rightarrow> [Post (payload_aud s c)]
        | Response code b \<Rightarrow>
            if code = 200 then [Post (payload_aud s c)]
            else [Post (payload_aud s c), Post (payload_no_aud s c)])
   \<and> (\<forall>code b code2 obj t.
          post w (events s) (payload_aud s c) = Response code b \<and> code \<noteq> 200
          \<and> post w (events s @ [Post (payload_aud s c)]) (payload_no_aud s c)
              = Response code2 (Object obj)
          \<and> \<not> raise_for_status code2 \<and> obj ''id_token'' = Some t
          \<longrightarrow> fst (request_id_token w s c) = Returned t)"
proof -
  have ev: "events (snd (request_id_token_try w s c))
      = events s @
        (case post w (events s) (payload_aud s c) of
           ConnectionFailed m \<Rightarrow> [Post (payload_aud s c)]
         | Response code b \<Rightarrow>
             if code = 200 then [Post (payload_aud s c)]
             else [Post (payload_aud s c), Post (payload_no_aud s c)])"
    by (simp add: request_id_token_try_def Let_def read_id_token_state emit_def
        split: post_result.splits)
  have ret: "fst (request_id_token_try w s c) = Returned t"
    if "post w (events s) (payload_aud s c) = Response code b" and "code \<noteq> 200"
      and "post w (events s @ [Post (payload_aud s c)]) (payload_no_aud s c)
            = Response code2 (Object obj)"
      and "\<not> raise_for_status code2" and "obj ''id_token'' = Some t"
    for code b code2 obj t
    using that
    by (simp add: request_id_token_try_def Let_def read_id_token_def emit_def)
  have same: "fst (request_id_token_try w s c) = Returned t \<Longrightarrow>
      fst (request_id_token w s c) = Returned t" for t
    by (cases "request_id_token_try w s c") (simp add: request_id_token_def)
  show ?thesis
    using ev ret same by (simp add: request_id_token_snd)
qed

theorem retry_after_any_refusal_witness:
  "events (snd (request_id_token server_error_env example_provider example_credential))
     = [Post (payload_aud example_provider example_credential),
        Post (payload_no_aud example_provider example_credential)]
   \<and> fst (request_id_token server_error_env example_provider example_credential)
     = Returned ''id-2''"
proof -
  have first: "post server_error_env (events example_provider)
        (payload_aud example_provider example_credential)
      = Response 500 (Object [''error'' \<mapsto> ''internal_failure''])"
    by (simp add: server_error_env_def payload_aud_def payload_no_aud_def)
  have second: "post server_error_env
        (events example_provider @ [Post (payload_aud example_provider example_credential)])
        (payload_no_aud example_provider example_credential)
      = Response 200 (Object [''id_token'' \<mapsto> ''id-2''])"
    by (simp add: server_error_env_def payload_no_aud_def)
  have ok: "\<not> raise_for_status 200"
    by (simp add: raise_for_status_def)
  note t = retry_after_any_refusal [of server_error_env example_provider example_credential]
  have ev: "events (snd (request_id_token server_error_env example_provider example_credential))
     = [Post (payload_aud example_provider example_credential),
        Post (payload_no_aud example_provider example_credential)]"
    using t first by (simp add: example_provider_def)
  have "fst (request_id_token server_error_env example_provider example_credential)
     = Returned ''id-2''"
    using t first second ok by fastforce
  then show ?thesis
    using ev by simp
qed

subsection \<open>A renewal that fails for a passing reason\<close>

lemma transient_message: "\<not> sublist ''invalid_grant'' (lower ''503 Service Unavailable'')"
  by code_simp

lemma invalid_grant_message:
  "sublist ''invalid_grant'' (lower ''invalid_grant: Token has been expired or revoked.'')"
  by code_simp

lemma valid_lock [simp]: "valid w (s\<lparr>lock := b\<rparr>) c = valid w s c"
  by (simp add: valid_def)

lemma refresh_token_try_failure:
  assumes "credentials s = Some c" and "\<not> valid w s c" and "truthy (refresh_token c)"
    and "refresh w (events s) c = Inl m"
  shows "refresh_token_try w s = (Raised (OtherError m), emit Renewal s)"
  using assms by (simp add: refresh_token_try_def Let_def)

text \<open>
  \<^verbatim>\<open>_refresh_token\<close> on its own, entered with the lock free as the background loop
  enters it: when its renewal call fails and the message of the exception does not
  contain \<^verbatim>\<open>invalid_grant\<close>, the \<^verbatim>\<open>except Exception\<close> logs the error and the method
  returns normally; the credential, the recorded expiry and the cache file are as
  before, and only the renewal call is in the trace.
\<close>

lemma refresh_transient_failure_swallowed:
  assumes "\<not> lock s" and "credentials s = Some c" and "\<not> valid w s c"
    and "truthy (refresh_token c)" and "refresh w (events s) c = Inl m"
    and "\<not> sublist ''invalid_grant'' (lower m)"
  shows "do_refresh_token w s = (Returned (), emit Renewal s)"
proof -
  let ?s = "s\<lparr>lock := True\<rparr>"
  have "refresh_token_try w ?s = (Raised (OtherError m), emit Renewal ?s)"
    using assms by (intro refresh_token_try_failure) simp_all
  then have "refresh_token_body w ?s = (Returned (), emit Renewal ?s)"
    using assms(6) by (simp add: refresh_token_body_def refresh_token_except_def)
  then show ?thesis
    using assms(1) by (simp add: do_refresh_token_def with_lock_def emit_def)
qed

lemma refresh_transient_failure_swallowed_example:
  "do_refresh_token transient_env example_provider
     = (Returned (), example_provider\<lparr>events := [Renewal]\<rparr>)"
  using refresh_transient_failure_swallowed
    [of example_provider example_credential transient_env "''503 Service Unavailable''"]
    transient_message
  by (simp add: example_provider_def transient_env_def example_env_def
      example_credential_def valid_def expired_def truthy_def emit_def)

text \<open>
  \<^verbatim>\<open>get_token\<close> itself never makes a renewal call, whatever the state and the outside
  world: it reaches \<^verbatim>\<open>_refresh_token\<close> only while it holds the lock, where that
  method waits for the lock before anything else. So no call of \<^verbatim>\<open>get_token\<close> sees a
  renewal fail, for a passing reason or any other.
\<close>

lemma request_id_token_renewals:
  "count_list (events (snd (request_id_token w s c))) Renewal = count_list (events s) Renewal"
  using request_id_token_state [of w s c] by (auto simp: emit_def)

lemma get_token_body_renewals:
  "count_list (events (snd (get_token_body w s))) Renewal
     = count_list (events (snd (obtain_credentials w s))) Renewal"
  by (cases "obtain_credentials w s"; cases "fst (obtain_credentials w s)")
    (auto simp: get_token_body_def then_do_def request_id_token_renewals split: option.splits)

lemma obtain_credentials_held_renewals:
  assumes "lock s"
  shows "count_list (events (snd (obtain_credentials w s))) Renewal
           = count_list (events s) Renewal"
proof (cases "credentials s")
  case None
  then show ?thesis
    using assms perform_oauth_flow_events [of w s]
    by (auto simp: obtain_credentials_held_none_state)
next
  case (Some c)
  then show ?thesis
    using assms by (simp add: obtain_credentials_held_some)
qed

lemma get_token_never_renews:
  "count_list (events (snd (get_token w s))) Renewal = count_list (events s) Renewal"
proof (cases "lock s")
  case True
  then show ?thesis
    by (simp add: get_token_def with_lock_def)
next
  case False
  then have "events (snd (get_token w s)) = events (snd (get_token_body w (s\<lparr>lock := True\<rparr>)))"
    by (simp add: get_token_def with_lock_events)
  then show ?thesis
    by (simp add: get_token_body_renewals obtain_credentials_held_renewals)
qed

subsection \<open>A refresh token that the provider rejects\<close>

lemma get_token_body_events:
  "\<exists>es. events (snd (get_token_body w s)) = events (snd (obtain_credentials w s)) @ es"
proof (cases "obtain_credentials w s")
  case (Pair r s3)
  show ?thesis
  proof (cases r)
    case (Returned x)
    show ?thesis
    proof (cases "credentials s3")
      case None
      then show ?thesis
        using Pair Returned by (simp add: get_token_body_def then_do_def)
    next
      case (Some c)
      then show ?thesis
        using Pair Returned request_id_token_state [of w s3 c]
        by (auto simp: get_token_body_def then_do_def emit_def)
    qed
  next
    case (Raised e)
    then show ?thesis
      using Pair by (simp add: get_token_body_def then_do_def)
  next
    case Blocked
    then show ?thesis
      using Pair by (simp add: get_token_body_def then_do_def)
  qed
qed

lemma get_token_starts_with_consent:
  assumes "\<not> lock s" and "credentials s = None"
  shows "\<exists>es. events (snd (get_token w s)) = events s @ ConsentFlow # es"
proof -
  let ?s = "s\<lparr>lock := True\<rparr>"
  have "snd (obtain_credentials w ?s) = snd (perform_oauth_flow w ?s)"
    using assms by (simp add: obtain_credentials_held_none_state)
  then have "\<exists>es. events (snd (obtain_credentials w ?s)) = events s @ ConsentFlow # es"
    using perform_oauth_flow_events [of w ?s] by auto
  then obtain es where es: "events (snd (obtain_credentials w ?s)) = events s @ ConsentFlow # es"
    by blast
  obtain es' where "events (snd (get_token_body w ?s))
      = events (snd (obtain_credentials w ?s)) @ es'"
    using get_token_body_events [of w ?s] by blast
  then have "events (snd (get_token w s)) = events s @ ConsentFlow # (es @ es')"
    using assms(1) es by (simp add: get_token_def with_lock_events)
  then show ?thesis by blast
qed

text \<open>
  C4, as claimed: after every renewal call that fails with \<^verbatim>\<open>invalid_grant\<close>,
  no credential is left in memory or on disk. The code makes a renewal call in two
  places. The one in \<^verbatim>\<open>_load_cached_credentials\<close> (line 121) is inside a
  \<^verbatim>\<open>try\<close> whose \<^verbatim>\<open>except\<close> only returns \<^verbatim>\<open>False\<close>: the credential read from the
  cache stays in memory, the file stays on disk, and the consent flow starts at once.
  When the user then declines consent, the constructor raises and the rejected record
  is still on disk.
\<close>

theorem invalid_grant_at_load_counterexample:
  "refresh invalid_grant_env [] example_credential
     = Inl ''invalid_grant: Token has been expired or revoked.''
   \<and> load_cached_credentials invalid_grant_env unloaded_provider
     = (False, unloaded_provider\<lparr>credentials := Some example_credential, events := [Renewal]\<rparr>)
   \<and> init invalid_grant_env unloaded_provider
     = (Raised (RuntimeError ''Failed to authenticate with Google. Error: access_denied''),
        unloaded_provider\<lparr>credentials := Some example_credential,
          events := [Renewal, ConsentFlow]\<rparr>)
   \<and> token_cache_file unloaded_provider = Some (CacheRecord example_credential)"
proof -
  have load: "load_cached_credentials invalid_grant_env (unloaded_provider\<lparr>lock := True\<rparr>)
     = (False, unloaded_provider\<lparr>credentials := Some example_credential, lock := True,
          events := [Renewal]\<rparr>)"
    by (simp add: load_cached_credentials_def unloaded_provider_def new_provider_def
        invalid_grant_env_def example_env_def example_credential_def valid_def expired_def
        truthy_def emit_def)
  have load': "load_cached_credentials invalid_grant_env unloaded_provider
     = (False, unloaded_provider\<lparr>credentials := Some example_credential, events := [Renewal]\<rparr>)"
    by (simp add: load_cached_credentials_def unloaded_provider_def new_provider_def
        invalid_grant_env_def example_env_def example_credential_def valid_def expired_def
        truthy_def emit_def)
  have "initialize_credentials invalid_grant_env unloaded_provider
     = (Raised (RuntimeError ''Failed to authenticate with Google. Error: access_denied''),
        unloaded_provider\<lparr>credentials := Some example_credential,
          events := [Renewal, ConsentFlow]\<rparr>)"
    unfolding initialize_credentials_def with_lock_def
    by (simp add: load)
      (simp add: perform_oauth_flow_def unloaded_provider_def new_provider_def
        invalid_grant_env_def emit_def)
  then have init: "init invalid_grant_env unloaded_provider
     = (Raised (RuntimeError ''Failed to authenticate with Google. Error: access_denied''),
        unloaded_provider\<lparr>credentials := Some example_credential,
          events := [Renewal, ConsentFlow]\<rparr>)"
    by (simp add: init_def then_do_def)
  show ?thesis
    using load' init
    by (simp add: invalid_grant_env_def unloaded_provider_def new_provider_def)
qed

text \<open>
  C4, amended: after every renewal call made by \<^verbatim>\<open>_refresh_token\<close> (entered with
  the lock free) that fails with a message containing \<^verbatim>\<open>invalid_grant\<close> in any
  letter case, the method returns normally, no credential is in memory and no cache
  file is on disk; a further \<^verbatim>\<open>_refresh_token\<close> makes no renewal call, and the next
  \<^verbatim>\<open>get_token\<close> starts with the consent flow.
\<close>

theorem refresh_invalid_grant_invalidates:
  assumes "\<not> lock s" and "credentials s = Some c" and "\<not> valid w s c"
    and "truthy (refresh_token c)" and "refresh w (events s) c = Inl m"
    and "sublist ''invalid_grant'' (lower m)"
  shows "do_refresh_token w s
           = (Returned (), (emit Renewal s)\<lparr>credentials := None, token_cache_file := None\<rparr>)
    \<and> (\<forall>w'. do_refresh_token w' (snd (do_refresh_token w s))
               = (Returned (), snd (do_refresh_token w s)))
    \<and> (\<forall>w'. \<exists>es. events (snd (get_token w' (snd (do_refresh_token w s))))
               = events s @ Renewal # ConsentFlow # es)"
proof -
  let ?s = "s\<lparr>lock := True\<rparr>"
  let ?t = "(emit Renewal s)\<lparr>credentials := None, token_cache_file := None\<rparr>"
  have "refresh_token_try w ?s = (Raised (OtherError m), emit Renewal ?s)"
    using assms by (intro refresh_token_try_failure) simp_all
  then have "refresh_token_body w ?s
      = (Returned (), (emit Renewal ?s)\<lparr>credentials := None, token_cache_file := None\<rparr>)"
    using assms(6) by (simp add: refresh_token_body_def refresh_token_except_def)
  then have run: "do_refresh_token w s = (Returned (), ?t)"
    using assms(1) by (simp add: do_refresh_token_def with_lock_def emit_def)
  have free: "\<not> lock ?t" and none: "credentials ?t = None"
    using assms(1) by (simp_all add: emit_def)
  have again: "do_refresh_token w' ?t = (Returned (), ?t)" for w'
    using assms(1)
    by (simp add: do_refresh_token_def with_lock_def refresh_token_body_def
        refresh_token_try_def emit_def)
  have "\<exists>es. events (snd (get_token w' ?t)) = events s @ Renewal # ConsentFlow # es" for w'
    using get_token_starts_with_consent [OF free none, of w'] by (simp add: emit_def)
  then show ?thesis
    using run again by simp
qed

theorem refresh_invalid_grant_invalidates_witness:
  "do_refresh_token invalid_grant_env example_provider
     = (Returned (), example_provider\<lparr>credentials := None, token_cache_file := None,
          events := [Renewal]\<rparr>)
   \<and> (\<exists>es. events (snd (get_token example_env
          (snd (do_refresh_token invalid_grant_env example_provider))))
        = Renewal # ConsentFlow # es)"
proof -
  have a: "\<not> valid invalid_grant_env example_provider example_credential"
    by (simp add: valid_def expired_def invalid_grant_env_def example_env_def
        example_provider_def example_credential_def)
  have b: "truthy (refresh_token example_credential)"
    by (simp add: truthy_def example_credential_def)
  have c: "refresh invalid_grant_env (events example_provider) example_credential
      = Inl ''invalid_grant: Token has been expired or revoked.''"
    by (simp add: invalid_grant_env_def)
  have d: "\<not> lock example_provider" "credentials example_provider = Some example_credential"
    by (simp_all add: example_provider_def)
  note t = refresh_invalid_grant_invalidates [OF d a b c invalid_grant_message]
  have run: "do_refresh_token invalid_grant_env example_provider
     = (Returned (), example_provider\<lparr>credentials := None, token_cache_file := None,
          events := [Renewal]\<rparr>)"
    using t by (simp add: example_provider_def emit_def)
  have "\<exists>es. events (snd (get_token example_env
          (snd (do_refresh_token invalid_grant_env example_provider))))
        = events example_provider @ Renewal # ConsentFlow # es"
    using t by blast
  then show ?thesis
    using run by (simp add: example_provider_def)
qed

subsection \<open>Stopping the background thread\<close>

lemma init_started:
  "fst (init w s) = Returned x \<Longrightarrow> refresh_thread (snd (init w s)) = Some Alive"
  by (cases "initialize_credentials w s"; cases "fst (initialize_credentials w s)")
    (auto simp: init_def then_do_def start_refresh_thread_def)

lemma waited_append [simp]: "waited (xs @ ys) = waited xs + waited ys"
  by (induction xs rule: waited.induct) simp_all

lemma stop_returns:
  assumes "refresh_thread s \<noteq> Some NotStarted"
  shows "fst (stop w s) = Returned ()
    \<and> waited (events (snd (stop w s))) \<le> waited (events s) + 5
    \<and> stop_refresh (snd (stop w s))
    \<and> refresh_thread (snd (stop w s)) \<noteq> Some NotStarted
    \<and> credentials (snd (stop w s)) = credentials s
    \<and> token_cache_file (snd (stop w s)) = token_cache_file s
    \<and> lock (snd (stop w s)) = lock s"
  using assms
  by (simp add: stop_def join_timeout_def emit_def Let_def split: option.splits thread.splits)

text \<open>
  C8. On a provider whose background thread was started (every provider that
  \<^verbatim>\<open>__init__\<close> returned) or that has none, \<^verbatim>\<open>stop\<close> returns, and so does a second
  \<^verbatim>\<open>stop\<close> right after it; neither raises or waits for the lock; each waits at most
  the five seconds of its \<^verbatim>\<open>join\<close>, whatever the refresh interval and whether or not
  the thread ever ends; the stop event stays set. When the thread has already ended,
  \<^verbatim>\<open>stop\<close> does not wait at all. After \<^verbatim>\<open>stop\<close> the background loop, at the head
  of a round, ends at once without another refresh.
\<close>

theorem stop_twice_returns:
  assumes "refresh_thread s \<noteq> Some NotStarted"
  shows "fst (stop w s) = Returned ()
    \<and> fst (stop w' (snd (stop w s))) = Returned ()
    \<and> waited (events (snd (stop w s))) \<le> waited (events s) + 5
    \<and> waited (events (snd (stop w' (snd (stop w s)))))
        \<le> waited (events (snd (stop w s))) + 5
    \<and> stop_refresh (snd (stop w s))
    \<and> stop_refresh (snd (stop w' (snd (stop w s))))
    \<and> (refresh_thread s = Some Finished
        \<longrightarrow> stop w s = (Returned (), emit (Joined 0) (s\<lparr>stop_refresh := True\<rparr>)))
    \<and> (\<forall>n v. refresh_loop (Suc n) v (snd (stop w s)) = Some (Returned (), snd (stop w s)))"
proof -
  have one: "fst (stop w s) = Returned ()
      \<and> waited (events (snd (stop w s))) \<le> waited (events s) + 5
      \<and> stop_refresh (snd (stop w s))
      \<and> refresh_thread (snd (stop w s)) \<noteq> Some NotStarted"
    using stop_returns [OF assms, of w] by simp
  then have two: "fst (stop w' (snd (stop w s))) = Returned ()
      \<and> waited (events (snd (stop w' (snd (stop w s)))))
          \<le> waited (events (snd (stop w s))) + 5
      \<and> stop_refresh (snd (stop w' (snd (stop w s))))"
    using stop_returns [of "snd (stop w s)" w'] by simp
  have "stop w s = (Returned (), emit (Joined 0) (s\<lparr>stop_refresh := True\<rparr>))"
    if "refresh_thread s = Some Finished"
    using that by (simp add: stop_def Let_def)
  moreover have "refresh_loop (Suc n) v (snd (stop w s)) = Some (Returned (), snd (stop w s))"
    for n v
    using one by simp
  ultimately show ?thesis
    using one two by simp
qed

theorem stop_twice_returns_witness:
  "fst (stop example_env example_provider) = Returned ()
   \<and> fst (stop example_env (snd (stop example_env example_provider))) = Returned ()
   \<and> waited (events (snd (stop example_env (snd (stop example_env example_provider))))) \<le> 10
   \<and> stop (example_env\<lparr>thread_exit := (\<lambda>_. None)\<rparr>)
        (example_provider\<lparr>refresh_thread := Some Finished\<rparr>)
      = (Returned (), example_provider\<lparr>refresh_thread := Some Finished,
           stop_refresh := True, events := [Joined 0]\<rparr>)"
proof -
  have a: "refresh_thread example_provider \<noteq> Some NotStarted"
    by (simp add: example_provider_def)
  have b: "refresh_thread (example_provider\<lparr>refresh_thread := Some Finished\<rparr>)
      \<noteq> Some NotStarted"
    by simp
  show ?thesis
    using stop_twice_returns [OF a, of example_env example_env]
      stop_twice_returns [OF b, of "example_env\<lparr>thread_exit := (\<lambda>_. None)\<rparr>" example_env]
    by (simp add: example_provider_def emit_def)
qed

subsection \<open>Callers at the same time\<close>

lemma get_token_body_near_expiry:
  assumes "lock s" and "credentials s = Some c"
    and "token_expiry s = Some e" and "e - 300 \<le> clock w (events s)"
  shows "get_token_body w s = (Blocked, s)"
proof -
  have near: "near_expiry w s"
    using assms by (simp add: near_expiry_def)
  have "obtain_credentials w s = (Blocked, s)"
    using assms near
    by (simp add: obtain_credentials_def then_do_def do_refresh_token_held)
  then show ?thesis
    by (simp add: get_token_body_def then_do_def)
qed

text \<open>One caller alone takes the two steps of the sequential method.\<close>

lemma step_get_token:
  assumes "\<not> lock s" and "t i = Idle" and "get_token w s = (r, s')" and "r \<noteq> Blocked"
  shows "(step w)\<^sup>*\<^sup>* (s, t) (s', t(i := Done r))"
proof -
  obtain r1 s1 where b: "get_token_body w (s\<lparr>lock := True\<rparr>) = (r1, s1)"
    by (cases "get_token_body w (s\<lparr>lock := True\<rparr>)")
  have eq: "r1 = r \<and> s' = s1\<lparr>lock := False\<rparr>"
    using assms b by (cases r1) (auto simp: get_token_def with_lock_def)
  have 1: "step w (s, t) (s\<lparr>lock := True\<rparr>, t(i := Holding))"
    using assms by (intro step.acquire)
  have 2: "step w (s\<lparr>lock := True\<rparr>, t(i := Holding))
      (s1\<lparr>lock := False\<rparr>, (t(i := Holding))(i := Done r1))"
    using b assms eq by (intro step.finish) simp_all
  show ?thesis
    using 1 2 eq by (simp add: r_into_rtranclp rtranclp.rtrancl_into_rtrancl)
qed

text \<open>
  C7. The claim: the lock lets one renewal happen at a time, and callers that ask at
  the same time for a token within five minutes of its expiry cause exactly one
  renewal call. The code does not make that call: the first caller to take the lock
  waits inside \<^verbatim>\<open>_refresh_token\<close> for the lock it holds, and the others wait for the
  same lock. From a provider with the lock free and such a token, in every
  configuration that any number of callers can reach, the provider is as at the start
  but for the lock, no renewal call was made and no caller is done.
\<close>

theorem concurrent_near_expiry_callers_block:
  assumes free: "\<not> lock s0" and cred: "credentials s0 = Some c"
    and exp: "token_expiry s0 = Some e" and near: "e - 300 \<le> clock w (events s0)"
    and run: "(step w)\<^sup>*\<^sup>* (s0, \<lambda>i. Idle) (s, t)"
  shows "(s = s0 \<or> s = s0\<lparr>lock := True\<rparr>)
    \<and> count_list (events s) Renewal = count_list (events s0) Renewal
    \<and> (\<forall>i r. t i \<noteq> Done r)"
proof -
  have inv: "(s = s0 \<or> s = s0\<lparr>lock := True\<rparr>)
      \<and> (\<forall>i. t i = Idle \<or> t i = Holding \<or> t i = Waiting)
      \<and> ((\<exists>i. t i \<noteq> Idle) \<longrightarrow> lock s)"
    using run
  proof (induction rule: rtranclp_induct2)
    case refl
    show ?case by simp
  next
    case (step s1 t1 s2 t2)
    have ih: "(s1 = s0 \<or> s1 = s0\<lparr>lock := True\<rparr>)
        \<and> (\<forall>i. t1 i = Idle \<or> t1 i = Holding \<or> t1 i = Waiting)
        \<and> ((\<exists>i. t1 i \<noteq> Idle) \<longrightarrow> lock s1)"
      using step.IH .
    have blocks: "get_token_body w s1 = (Blocked, s1)" if "t1 i = Holding" for i
    proof -
      have "lock s1" using ih that by auto
      then have "s1 = s0\<lparr>lock := True\<rparr>" using ih free by auto
      then show ?thesis
        using get_token_body_near_expiry [of s1 c e w] cred exp near by simp
    qed
    from step.hyps(2) show ?case
    proof (cases rule: step.cases)
      case (acquire i)
      then show ?thesis
        using ih free by auto
    next
      case (finish i r s')
      then show ?thesis
        using blocks [of i] by simp
    next
      case (block i)
      then have "s2 = s1" and "lock s1"
        using blocks [of i] ih by auto
      then show ?thesis
        using block ih by auto
    next
      case (resume i)
      then show ?thesis
        using ih by auto
    qed
  qed
  then have "\<forall>i r. t i \<noteq> Done r"
    by (metis call.distinct(5,9,11))
  then show ?thesis
    using inv by auto
qed

theorem concurrent_near_expiry_callers_block_witness:
  "(step (example_env\<lparr>clock := (\<lambda>_. 900)\<rparr>))\<^sup>*\<^sup>* (example_provider, \<lambda>i. Idle)
      (example_provider\<lparr>lock := True\<rparr>, (\<lambda>i. Idle)(0 := Waiting))
   \<and> count_list (events (example_provider\<lparr>lock := True\<rparr>)) Renewal = 0
   \<and> (\<forall>r. ((\<lambda>i. Idle)(0 := Waiting)) (1::nat) \<noteq> Done r)"
proof -
  let ?w = "example_env\<lparr>clock := (\<lambda>_. 900)\<rparr>"
  let ?s = "example_provider\<lparr>lock := True\<rparr>"
  have free: "\<not> lock example_provider"
    and cred: "credentials example_provider = Some example_credential"
    and exp: "token_expiry example_provider = Some 1000"
    and near: "1000 - 300 \<le> clock ?w (events example_provider)"
    by (simp_all add: example_provider_def)
  have 1: "step ?w (example_provider, \<lambda>i. Idle) (?s, (\<lambda>i. Idle)(0 := Holding))"
    using free by (intro step.acquire) simp_all
  have body: "get_token_body ?w ?s = (Blocked, ?s)"
    using get_token_body_near_expiry [of ?s example_credential 1000 ?w] cred exp near
    by simp
  have "step ?w (?s, (\<lambda>i. Idle)(0 := Holding)) (?s, ((\<lambda>i. Idle)(0 := Holding))(0 := Waiting))"
    using body by (intro step.block) simp_all
  then have 2: "step ?w (?s, (\<lambda>i. Idle)(0 := Holding)) (?s, (\<lambda>i. Idle)(0 := Waiting))"
    by simp
  have run: "(step ?w)\<^sup>*\<^sup>* (example_provider, \<lambda>i. Idle) (?s, (\<lambda>i. Idle)(0 := Waiting))"
    using 1 2 by (meson r_into_rtranclp rtranclp.rtrancl_into_rtrancl)
  show ?thesis
    using run concurrent_near_expiry_callers_block [OF free cred exp near run]
    by (simp add: example_provider_def)
qed

end
